theory Spec2Isabelle
  imports Main "HOL-Library.Sublist" "HOL-Library.Word"
begin

section \<open>Python values, exceptions and computations\<close>

text \<open>
  The controller of \<^verbatim>\<open>sky/serve/controller.py\<close> moves dynamically typed values between
  the request body, its two collaborators and the response. They are modelled by one
  datatype of Python values: \<^verbatim>\<open>None\<close>, booleans, integers, strings, lists and
  dictionaries with string keys (kept as association lists in insertion order, each key
  once). The handlers pass these values on without looking inside them, apart from
  subscripting the request body.
\<close>

datatype pyval =
    PNone
  | PBool bool
  | PInt int
  | PStr string
  | PList "pyval list"
  | PDict "(string \<times> pyval) list"

text \<open>
  The exceptions that can leave a handler. \<open>ValueError\<close> is raised by the controller
  itself; \<open>KeyError\<close> and \<open>TypeError\<close> come from subscripting the request body;
  \<open>JSONDecodeError\<close> from reading it; \<open>FileNotFoundError\<close> from reading a task file;
  \<open>AttributeError\<close> from a method call on \<^verbatim>\<open>None\<close>; \<open>OtherError\<close> stands for any
  other exception class a collaborator may raise.
\<close>

datatype exn =
    ValueError string
  | KeyError string
  | TypeError string
  | JSONDecodeError
  | FileNotFoundError string
  | AttributeError string
  | OtherError string

text \<open>
  \<^verbatim>\<open>request_data[key]\<close>: a dictionary lookup raises \<open>KeyError\<close> on a missing key; every
  other JSON value cannot be subscripted with a string and raises \<open>TypeError\<close>.
\<close>

fun getitem :: "pyval \<Rightarrow> string \<Rightarrow> exn + pyval" where
  "getitem (PDict kvs) k = (case map_of kvs k of None \<Rightarrow> Inl (KeyError k) | Some v \<Rightarrow> Inr v)"
| "getitem (PStr s) k = Inl (TypeError ''string indices must be integers'')"
| "getitem (PList xs) k = Inl (TypeError ''list indices must be integers or slices'')"
| "getitem v k = Inl (TypeError ''object is not subscriptable'')"

text \<open>
  A handler runs on the controller object and either returns a value or raises. A raise
  does not undo what was done before it, so the state is returned in both cases.
\<close>

type_synonym ('s, 'x) comp = "'s \<Rightarrow> (exn + 'x) \<times> 's"

definition ret :: "'x \<Rightarrow> ('s, 'x) comp" where
  "ret x = (\<lambda>s. (Inr x, s))"

definition raise :: "exn \<Rightarrow> ('s, 'x) comp" where
  "raise e = (\<lambda>s. (Inl e, s))"

definition lift :: "exn + 'x \<Rightarrow> ('s, 'x) comp" where
  "lift r = (\<lambda>s. (r, s))"

definition seq :: "('s, 'x) comp \<Rightarrow> ('x \<Rightarrow> ('s, 'y) comp) \<Rightarrow> ('s, 'y) comp" where
  "seq m f = (\<lambda>s. case m s of (Inl e, s') \<Rightarrow> (Inl e, s') | (Inr x, s') \<Rightarrow> f x s')"

section \<open>The collaborators\<close>

text \<open>
  \<^verbatim>\<open>serve.SkyServiceSpec\<close>: the fields the program reads (lines 173 to 178).
\<close>

record SkyServiceSpec =
  auto_restart :: pyval
  min_replicas :: pyval
  max_replicas :: pyval
  qps_upper_threshold :: pyval
  qps_lower_threshold :: pyval

text \<open>
  The methods of \<^verbatim>\<open>infra_providers.InfraProvider\<close> and \<^verbatim>\<open>autoscalers.Autoscaler\<close> that
  the controller calls, with their arguments. Their bodies are not part of
  \<^verbatim>\<open>controller.py\<close>; the environment below supplies them.
\<close>

datatype infra_call =
    Get_ready_replicas
  | Get_replica_info bool
  | Get_uptime
  | Get_latest_version
  | Set_separate_replicas pyval
  | Update_version pyval SkyServiceSpec
  | Terminate_infra
  | Start_replica_prober

datatype autoscaler_call =
    Set_num_requests pyval
  | Get_query_interval
  | Update_spec SkyServiceSpec
  | Terminate_autoscaler
  | Start_autoscaler

datatype call = Infra infra_call | Auto autoscaler_call

text \<open>
  The attribute \<^verbatim>\<open>self.autoscaler\<close> has type \<^verbatim>\<open>Optional[autoscalers.Autoscaler]\<close>; the
  handlers tell \<^verbatim>\<open>RequestRateAutoscaler\<close> from the other autoscalers with
  \<^verbatim>\<open>isinstance\<close>. The constructor records the class, the argument is the object's state.
\<close>

datatype 'a autoscaler =
    Autoscaler (autoscaler_state: 'a)
  | RequestRateAutoscaler (autoscaler_state: 'a)

fun isinstance_RequestRateAutoscaler :: "'a autoscaler option \<Rightarrow> bool" where
  "isinstance_RequestRateAutoscaler (Some (RequestRateAutoscaler a)) = True"
| "isinstance_RequestRateAutoscaler x = False"

type_synonym bytes = "8 word list"

text \<open>
  The code of this repository that the controller uses and does not define: the
  behaviour of each collaborator method on the collaborator's state (a method returns
  or raises, and may change the state either way) and the two functions of
  \<^verbatim>\<open>sky.serve\<close>.
\<close>

record ('p, 'a) env =
  infra_do :: "infra_call \<Rightarrow> 'p \<Rightarrow> (exn + pyval) \<times> 'p"
  autoscaler_do :: "autoscaler_call \<Rightarrow> 'a \<Rightarrow> (exn + pyval) \<times> 'a"
  generate_remote_task_yaml_file_name :: "string \<Rightarrow> pyval \<Rightarrow> bool \<Rightarrow> string"
  from_yaml :: "string \<Rightarrow> exn + SkyServiceSpec"

text \<open>
  The three functions of Python's standard library that \<open>get_latest_info\<close> composes:
  \<^verbatim>\<open>pickle.dumps\<close>, \<^verbatim>\<open>base64.b64encode\<close> and \<^verbatim>\<open>bytes.decode('utf-8')\<close>. They are
  parameters: nothing is assumed about them.
\<close>

record codec =
  pickle_dumps :: "pyval \<Rightarrow> bytes"
  b64encode :: "bytes \<Rightarrow> bytes"
  decode_utf8 :: "bytes \<Rightarrow> string"

section \<open>The controller\<close>

text \<open>
  \<^verbatim>\<open>class SkyServeController\<close> with the attributes set by \<^verbatim>\<open>__init__\<close>. The field
  \<open>trace\<close> is not an attribute of the class: it records, in order, every method call
  the controller has made on a collaborator, so that claims about which calls are made
  and in which order can be stated.
\<close>

record ('p, 'a) SkyServeController =
  service_name :: string
  port :: int
  infra_provider :: 'p
  autoscaler :: "'a autoscaler option"
  trace :: "call list"

text \<open>\<^verbatim>\<open>fastapi.Request\<close>: what \<^verbatim>\<open>asyncio.run(request.json())\<close> yields, a value or a raise.\<close>

record Request =
  request_json :: "exn + pyval"

text \<open>\<^verbatim>\<open>self.infra_provider.m(args)\<close>: the call is recorded, then the method runs.\<close>

definition call_infra_provider ::
  "('p, 'a) env \<Rightarrow> infra_call \<Rightarrow> (('p, 'a) SkyServeController, pyval) comp" where
  "call_infra_provider env c = (\<lambda>self.
     case infra_do env c (infra_provider self) of
       (r, p') \<Rightarrow> (r, self\<lparr>infra_provider := p', trace := trace self @ [Infra c]\<rparr>))"

text \<open>\<^verbatim>\<open>self.autoscaler.m(args)\<close>; on \<^verbatim>\<open>None\<close> the attribute lookup raises.\<close>

definition call_autoscaler ::
  "('p, 'a) env \<Rightarrow> autoscaler_call \<Rightarrow> (('p, 'a) SkyServeController, pyval) comp" where
  "call_autoscaler env c = (\<lambda>self.
     case autoscaler self of
       None \<Rightarrow> (Inl (AttributeError ''NoneType object has no such attribute''), self)
     | Some obj \<Rightarrow>
        (case autoscaler_do env c (autoscaler_state obj) of
           (r, a') \<Rightarrow> (r, self\<lparr>autoscaler := Some (map_autoscaler (\<lambda>_. a') obj),
                                trace := trace self @ [Auto c]\<rparr>)))"

definition Success :: pyval where
  "Success = PDict [(''message'', PStr ''Success'')]"

text \<open>Lines 56 to 65. The \<^verbatim>\<open>logger.info\<close> calls of the handlers are left out.\<close>

definition update_num_requests ::
  "('p, 'a) env \<Rightarrow> Request \<Rightarrow> (('p, 'a) SkyServeController, pyval) comp" where
  "update_num_requests env request =
     seq (lift (request_json request)) (\<lambda>request_data.
     seq (lift (getitem request_data ''num_requests'')) (\<lambda>num_requests.
     (\<lambda>self.
        if isinstance_RequestRateAutoscaler (autoscaler self)
        then seq (call_autoscaler env (Set_num_requests num_requests)) (\<lambda>_. ret Success) self
        else ret Success self)))"

text \<open>Lines 67 to 71.\<close>

definition get_autoscaler_query_interval ::
  "('p, 'a) env \<Rightarrow> (('p, 'a) SkyServeController, pyval) comp" where
  "get_autoscaler_query_interval env = (\<lambda>self.
     if isinstance_RequestRateAutoscaler (autoscaler self)
     then seq (call_autoscaler env Get_query_interval)
            (\<lambda>interval. ret (PDict [(''query_interval'', interval)])) self
     else ret (PDict [(''query_interval'', PNone)]) self)"

text \<open>Lines 73 to 75.\<close>

definition get_ready_replicas ::
  "('p, 'a) env \<Rightarrow> (('p, 'a) SkyServeController, pyval) comp" where
  "get_ready_replicas env =
     seq (call_infra_provider env Get_ready_replicas)
       (\<lambda>replicas. ret (PDict [(''ready_replicas'', replicas)]))"

text \<open>
  Lines 77 to 89. The dictionary display evaluates its three values in order; the
  comprehension then replaces each value, keeping the keys and their order.
\<close>

definition encode_value :: "codec \<Rightarrow> pyval \<Rightarrow> pyval" where
  "encode_value lib v = PStr (decode_utf8 lib (b64encode lib (pickle_dumps lib v)))"

definition get_latest_info ::
  "('p, 'a) env \<Rightarrow> codec \<Rightarrow> (('p, 'a) SkyServeController, pyval) comp" where
  "get_latest_info env lib =
     seq (call_infra_provider env (Get_replica_info True)) (\<lambda>replica_info.
     seq (call_infra_provider env Get_uptime) (\<lambda>uptime.
     seq (call_infra_provider env Get_latest_version) (\<lambda>version.
     ret (PDict (map (\<lambda>(k, v). (k, encode_value lib v))
            [(''replica_info'', replica_info), (''uptime'', uptime), (''version'', version)])))))"

text \<open>Lines 91 to 107.\<close>

definition update_service ::
  "('p, 'a) env \<Rightarrow> Request \<Rightarrow> (('p, 'a) SkyServeController, pyval) comp" where
  "update_service env request = (\<lambda>self.
     if autoscaler self = None
     then raise (ValueError ''Update service is not allowed without autoscaler.'') self
     else
      (seq (lift (request_json request)) (\<lambda>request_data.
       seq (lift (getitem request_data ''version'')) (\<lambda>version.
       seq (lift (getitem request_data ''separate_replicas'')) (\<lambda>separate_replicas.
       seq (call_infra_provider env (Set_separate_replicas separate_replicas)) (\<lambda>_.
       seq (ret (generate_remote_task_yaml_file_name env (service_name self) version True))
         (\<lambda>latest_task_yaml.
       seq (lift (from_yaml env latest_task_yaml)) (\<lambda>service.
       seq (call_infra_provider env (Update_version version service)) (\<lambda>_.
       seq (call_autoscaler env (Update_spec service)) (\<lambda>_.
       ret Success))))))))) self)"

text \<open>Lines 109 to 117. \<^verbatim>\<open>del request\<close>: the request is dropped unread.\<close>

definition terminate ::
  "('p, 'a) env \<Rightarrow> Request \<Rightarrow> (('p, 'a) SkyServeController, pyval) comp" where
  "terminate env request =
     seq (\<lambda>self. if autoscaler self \<noteq> None
                 then call_autoscaler env Terminate_autoscaler self
                 else ret PNone self) (\<lambda>_.
     seq (call_infra_provider env Terminate_infra) (\<lambda>msg.
     ret (PDict [(''message'', msg)])))"

text \<open>
  Lines 119 to 124 of \<^verbatim>\<open>run\<close>: the background threads are started; then the server
  listens (not modelled).
\<close>

definition run :: "('p, 'a) env \<Rightarrow> (('p, 'a) SkyServeController, pyval) comp" where
  "run env =
     seq (call_infra_provider env Start_replica_prober) (\<lambda>_.
     (\<lambda>self. if autoscaler self \<noteq> None
             then call_autoscaler env Start_autoscaler self
             else ret PNone self))"

section \<open>Startup\<close>

text \<open>
  Lines 137 to 185. \<open>Args\<close> is what \<^verbatim>\<open>parser.parse_args()\<close> returns. The two
  collaborators are built from keyword arguments; the records below hold the arguments
  each constructor receives (the autoscaler also receives the infra provider object).
  \<^verbatim>\<open>authentication.get_or_generate_keys()\<close> is left out.
\<close>

record Args =
  args_service_name :: string
  args_version :: int
  args_controller_port :: int

record SkyPilotInfraProvider_args =
  arg_service_name :: string
  controller_port :: int
  initial_version :: int
  initial_spec :: SkyServiceSpec

record RequestRateAutoscaler_args =
  arg_auto_restart :: pyval
  frequency :: int
  min_nodes :: pyval
  max_nodes :: pyval
  upper_threshold :: pyval
  lower_threshold :: pyval
  cooldown :: int
  query_interval :: int

text \<open>Lines 171 to 180.\<close>

definition new_RequestRateAutoscaler :: "SkyServiceSpec \<Rightarrow> RequestRateAutoscaler_args" where
  "new_RequestRateAutoscaler service_spec =
     \<lparr>arg_auto_restart = auto_restart service_spec,
      frequency = 20,
      min_nodes = min_replicas service_spec,
      max_nodes = max_replicas service_spec,
      upper_threshold = qps_upper_threshold service_spec,
      lower_threshold = qps_lower_threshold service_spec,
      cooldown = 60,
      query_interval = 60\<rparr>"

text \<open>Lines 157 to 180: reading the task file may raise, which ends the program.\<close>

definition main ::
  "('p, 'a) env \<Rightarrow> Args \<Rightarrow> exn + SkyPilotInfraProvider_args \<times> RequestRateAutoscaler_args" where
  "main env args =
     (let task_yaml = generate_remote_task_yaml_file_name env (args_service_name args)
                        (PInt (args_version args)) True
      in case from_yaml env task_yaml of
           Inl e \<Rightarrow> Inl e
         | Inr service_spec \<Rightarrow>
             Inr (\<lparr>arg_service_name = args_service_name args,
                   controller_port = args_controller_port args,
                   initial_version = args_version args,
                   initial_spec = service_spec\<rparr>,
                  new_RequestRateAutoscaler service_spec))"

section \<open>The collaborators' terminate operations, as the specification describes them\<close>

text \<open>
  Modelled from the spec: the lifecycle status of a replica, held by
  \<^verbatim>\<open>infra_providers.SkyPilotInfraProvider\<close>, whose source is not part of
  \<^verbatim>\<open>controller.py\<close>.
\<close>

datatype status = Provisioning | Ready | Unready | Restarting | Terminating | Terminated

text \<open>
  Modelled from the spec: the replica record of the infra provider, with an identity, a
  version and a lifecycle status (the two timestamps are left out).
\<close>

record ReplicaRecord =
  identity :: nat
  replica_version :: int
  status :: status

text \<open>
  Modelled from the spec: the fleet state of the infra provider. It holds the replicas in
  creation order, the target version, the \<open>separate_replicas\<close> flag and whether the
  fleet is closed; \<open>deprovisioned\<close> lists the deprovision requests sent to the
  provisioner so far.
\<close>

record FleetState =
  replicas :: "ReplicaRecord list"
  target_version :: int
  separate_replicas :: bool
  closed :: bool
  deprovisioned :: "nat list"

text \<open>
  Modelled from the spec: \<open>terminateAll\<close>, the body of \<^verbatim>\<open>InfraProvider.terminate\<close>,
  which is not part of \<^verbatim>\<open>controller.py\<close>. It issues termination to every replica that is
  not terminated, closes the fleet, and returns when every record is \<open>Terminated\<close> (a
  replica that does not confirm is marked so by force); the status message it returns
  indicates success.
\<close>

definition terminateAll :: "pyval \<Rightarrow> FleetState \<Rightarrow> (exn + pyval) \<times> FleetState" where
  "terminateAll success_message fs =
     (Inr success_message,
      fs\<lparr>replicas := map (\<lambda>r. r\<lparr>status := Terminated\<rparr>) (replicas fs),
         closed := True,
         deprovisioned := deprovisioned fs
            @ map identity (filter (\<lambda>r. status r \<noteq> Terminated) (replicas fs))\<rparr>)"

text \<open>
  Modelled from the spec: the state of the autoscaler's decision loop, of
  \<^verbatim>\<open>autoscalers.Autoscaler\<close>, whose source is not part of \<^verbatim>\<open>controller.py\<close>: whether
  the loop still runs.
\<close>

record AutoscalerLoop =
  running :: bool

text \<open>
  Modelled from the spec: \<^verbatim>\<open>Autoscaler.terminate\<close>, which is not part of
  \<^verbatim>\<open>controller.py\<close>. It stops the loop: no later tick runs.
\<close>

definition stop_loop :: "AutoscalerLoop \<Rightarrow> (exn + pyval) \<times> AutoscalerLoop" where
  "stop_loop a = (Inr PNone, a\<lparr>running := False\<rparr>)"

section \<open>A concrete configuration\<close>

text \<open>
  A small infra provider and autoscaler on which the handlers can be evaluated. The
  infra provider remembers the \<open>separate_replicas\<close> flag and the latest version; the
  autoscaler remembers the last request count and the last specification. Only the task
  file of version 2 exists.
\<close>

definition example_spec :: SkyServiceSpec where
  "example_spec = \<lparr>auto_restart = PBool True, min_replicas = PInt 1, max_replicas = PInt 5,
     qps_upper_threshold = PInt 10, qps_lower_threshold = PInt 2\<rparr>"

definition other_spec :: SkyServiceSpec where
  "other_spec = \<lparr>auto_restart = PBool False, min_replicas = PInt 3, max_replicas = PInt 9,
     qps_upper_threshold = PInt 40, qps_lower_threshold = PInt 8\<rparr>"

fun example_infra_do ::
  "infra_call \<Rightarrow> pyval \<times> pyval \<Rightarrow> (exn + pyval) \<times> (pyval \<times> pyval)" where
  "example_infra_do Get_ready_replicas p = (Inr (PList []), p)"
| "example_infra_do (Get_replica_info verbose) p = (Inr (PList []), p)"
| "example_infra_do Get_uptime p = (Inr (PInt 7), p)"
| "example_infra_do Get_latest_version p = (Inr (snd p), p)"
| "example_infra_do (Set_separate_replicas x) p = (Inr PNone, (x, snd p))"
| "example_infra_do (Update_version v s) p = (Inr PNone, (fst p, v))"
| "example_infra_do Terminate_infra p = (Inr (PStr ''Success''), p)"
| "example_infra_do Start_replica_prober p = (Inr PNone, p)"

fun example_autoscaler_do ::
  "autoscaler_call \<Rightarrow> pyval \<times> SkyServiceSpec option
     \<Rightarrow> (exn + pyval) \<times> (pyval \<times> SkyServiceSpec option)" where
  "example_autoscaler_do (Set_num_requests n) a = (Inr PNone, (n, snd a))"
| "example_autoscaler_do Get_query_interval a = (Inr (PInt 60), a)"
| "example_autoscaler_do (Update_spec s) a = (Inr PNone, (fst a, Some s))"
| "example_autoscaler_do Terminate_autoscaler a = (Inr PNone, a)"
| "example_autoscaler_do Start_autoscaler a = (Inr PNone, a)"

definition example_file_name :: "string \<Rightarrow> pyval \<Rightarrow> bool \<Rightarrow> string" where
  "example_file_name name version expand_user =
     (if expand_user then ''/home/sky/'' else ''~/'') @ name @ ''/task_v'' @
     (case version of
        PInt n \<Rightarrow> (if n = 1 then ''1'' else if n = 2 then ''2'' else if n = 3 then ''3'' else ''n'')
      | _ \<Rightarrow> ''x'') @ ''.yaml''"

definition example_from_yaml :: "string \<Rightarrow> exn + SkyServiceSpec" where
  "example_from_yaml path =
     (if path = ''/home/sky/svc/task_v2.yaml'' then Inr example_spec
      else Inl (FileNotFoundError path))"

definition example_env :: "(pyval \<times> pyval, pyval \<times> SkyServiceSpec option) env" where
  "example_env = \<lparr>infra_do = example_infra_do, autoscaler_do = example_autoscaler_do,
     generate_remote_task_yaml_file_name = example_file_name, from_yaml = example_from_yaml\<rparr>"

text \<open>
  The same configuration with an autoscaler whose \<^verbatim>\<open>terminate\<close> raises (its thread
  cannot be joined) and leaves the autoscaler as it was.
\<close>

definition stuck_autoscaler_env ::
  "(pyval \<times> pyval, pyval \<times> SkyServiceSpec option) env" where
  "stuck_autoscaler_env = example_env\<lparr>autoscaler_do :=
     (\<lambda>c a. case c of
        Terminate_autoscaler \<Rightarrow> (Inl (OtherError ''cannot join thread''), a)
      | _ \<Rightarrow> example_autoscaler_do c a)\<rparr>"

text \<open>The same configuration with another specification stored in every task file.\<close>

definition other_env :: "(pyval \<times> pyval, pyval \<times> SkyServiceSpec option) env" where
  "other_env = example_env\<lparr>from_yaml := (\<lambda>path. Inr other_spec)\<rparr>"

definition example_controller ::
  "(pyval \<times> SkyServiceSpec option) autoscaler option \<Rightarrow>
   (pyval \<times> pyval, pyval \<times> SkyServiceSpec option) SkyServeController" where
  "example_controller a = \<lparr>service_name = ''svc'', port = 20001,
     infra_provider = (PBool False, PInt 1), autoscaler = a, trace = []\<rparr>"

text \<open>
  A request body with the keys of \<open>update_service\<close> and \<open>update_num_requests\<close>, asking
  for version \<open>v\<close>.
\<close>

definition example_request :: "int \<Rightarrow> Request" where
  "example_request v = \<lparr>request_json = Inr (PDict [(''version'', PInt v),
     (''separate_replicas'', PBool True), (''num_requests'', PInt 50)])\<rparr>"

definition example_args :: Args where
  "example_args = \<lparr>args_service_name = ''svc'', args_version = 2, args_controller_port = 20001\<rparr>"

text \<open>
  A fleet of two provisioning replicas and one ready replica, with collaborators whose
  terminate operations are the ones described by the specification; their other methods
  do nothing.
\<close>

definition example_fleet :: FleetState where
  "example_fleet = \<lparr>replicas =
       [\<lparr>identity = 0, replica_version = 1, status = Provisioning\<rparr>,
        \<lparr>identity = 1, replica_version = 1, status = Provisioning\<rparr>,
        \<lparr>identity = 2, replica_version = 1, status = Ready\<rparr>],
     target_version = 1, separate_replicas = False, closed = False, deprovisioned = []\<rparr>"

definition fleet_env :: "(FleetState, AutoscalerLoop) env" where
  "fleet_env = \<lparr>
     infra_do = (\<lambda>c. case c of Terminate_infra \<Rightarrow> terminateAll (PStr ''Success'')
                                | _ \<Rightarrow> (\<lambda>fs. (Inr PNone, fs))),
     autoscaler_do = (\<lambda>c. case c of Terminate_autoscaler \<Rightarrow> stop_loop
                                     | _ \<Rightarrow> (\<lambda>a. (Inr PNone, a))),
     generate_remote_task_yaml_file_name = example_file_name, from_yaml = example_from_yaml\<rparr>"

definition fleet_controller :: "(FleetState, AutoscalerLoop) SkyServeController" where
  "fleet_controller = \<lparr>service_name = ''svc'', port = 20001, infra_provider = example_fleet,
     autoscaler = Some (RequestRateAutoscaler \<lparr>running = True\<rparr>), trace = []\<rparr>"

section \<open>Unfolding the handlers\<close>

lemmas comp_defs = ret_def raise_def lift_def seq_def call_infra_provider_def call_autoscaler_def

section \<open>Rollout without an autoscaler\<close>

text \<open>
  Claim C1. When no autoscaler is configured (\<^verbatim>\<open>self.autoscaler is None\<close>),
  \<open>update_service\<close> raises the \<open>ValueError\<close> and leaves the controller as it was: no
  call is made on a collaborator (the trace is unchanged, so neither
  \<open>set_separate_replicas\<close> nor \<open>update_version\<close> nor \<open>update_spec\<close> is invoked) and
  neither collaborator's state changes. This holds for every request, read or not.
\<close>

theorem update_service_without_autoscaler:
  assumes "autoscaler self = None"
  shows "update_service env request self =
           (Inl (ValueError ''Update service is not allowed without autoscaler.''), self)"
  using assms by (simp add: update_service_def raise_def)

theorem update_service_without_autoscaler_witness:
  "autoscaler (example_controller None) = None
   \<and> update_service example_env (example_request 2) (example_controller None) =
       (Inl (ValueError ''Update service is not allowed without autoscaler.''),
        example_controller None)"
  using update_service_without_autoscaler
          [of "example_controller None" example_env "example_request 2"]
  by (simp add: example_controller_def)

section \<open>Evaluating the concrete configuration\<close>

lemma example_rollout:
  "update_service example_env (example_request 2)
     (example_controller (Some (RequestRateAutoscaler (PInt 0, None)))) =
   (Inr Success,
    \<lparr>service_name = ''svc'', port = 20001, infra_provider = (PBool True, PInt 2),
     autoscaler = Some (RequestRateAutoscaler (PInt 0, Some example_spec)),
     trace = [Infra (Set_separate_replicas (PBool True)),
              Infra (Update_version (PInt 2) example_spec),
              Auto (Update_spec example_spec)]\<rparr>)"
  by (simp add: update_service_def comp_defs example_env_def example_controller_def
      example_request_def example_file_name_def example_from_yaml_def)

lemma example_rollout_missing_file:
  "update_service example_env (example_request 3)
     (example_controller (Some (RequestRateAutoscaler (PInt 0, None)))) =
   (Inl (FileNotFoundError ''/home/sky/svc/task_v3.yaml''),
    \<lparr>service_name = ''svc'', port = 20001, infra_provider = (PBool True, PInt 1),
     autoscaler = Some (RequestRateAutoscaler (PInt 0, None)),
     trace = [Infra (Set_separate_replicas (PBool True))]\<rparr>)"
  by (simp add: update_service_def comp_defs example_env_def example_controller_def
      example_request_def example_file_name_def example_from_yaml_def)

lemma example_load_report:
  "update_num_requests example_env (example_request 2)
     (example_controller (Some (RequestRateAutoscaler (PInt 0, None)))) =
   (Inr Success,
    \<lparr>service_name = ''svc'', port = 20001, infra_provider = (PBool False, PInt 1),
     autoscaler = Some (RequestRateAutoscaler (PInt 50, None)),
     trace = [Auto (Set_num_requests (PInt 50))]\<rparr>)"
  by (simp add: update_num_requests_def comp_defs example_env_def example_controller_def
      example_request_def)

lemma example_query_interval:
  "get_autoscaler_query_interval example_env
     (example_controller (Some (RequestRateAutoscaler (PInt 0, None)))) =
   (Inr (PDict [(''query_interval'', PInt 60)]),
    \<lparr>service_name = ''svc'', port = 20001, infra_provider = (PBool False, PInt 1),
     autoscaler = Some (RequestRateAutoscaler (PInt 0, None)),
     trace = [Auto Get_query_interval]\<rparr>)"
  by (simp add: get_autoscaler_query_interval_def comp_defs example_env_def
      example_controller_def)

lemma example_drain:
  "terminate fleet_env (example_request 2) fleet_controller =
   (Inr (PDict [(''message'', PStr ''Success'')]),
    \<lparr>service_name = ''svc'', port = 20001,
     infra_provider = \<lparr>replicas =
         [\<lparr>identity = 0, replica_version = 1, status = Terminated\<rparr>,
          \<lparr>identity = 1, replica_version = 1, status = Terminated\<rparr>,
          \<lparr>identity = 2, replica_version = 1, status = Terminated\<rparr>],
       target_version = 1, separate_replicas = False, closed = True,
       deprovisioned = [0, 1, 2]\<rparr>,
     autoscaler = Some (RequestRateAutoscaler \<lparr>running = False\<rparr>),
     trace = [Auto Terminate_autoscaler, Infra Terminate_infra]\<rparr>)"
  by (simp add: terminate_def comp_defs fleet_env_def fleet_controller_def example_fleet_def
      terminateAll_def stop_loop_def)

lemma example_main:
  "main example_env example_args =
     Inr (\<lparr>arg_service_name = ''svc'', controller_port = 20001, initial_version = 2,
           initial_spec = example_spec\<rparr>,
          new_RequestRateAutoscaler example_spec)"
  by (simp add: main_def example_env_def example_args_def example_file_name_def
      example_from_yaml_def)

lemma other_main:
  "main other_env example_args =
     Inr (\<lparr>arg_service_name = ''svc'', controller_port = 20001, initial_version = 2,
           initial_spec = other_spec\<rparr>,
          new_RequestRateAutoscaler other_spec)"
  by (simp add: main_def other_env_def example_env_def example_args_def)

lemma example_terminate:
  "terminate example_env (example_request 2)
     (example_controller (Some (RequestRateAutoscaler (PInt 0, None)))) =
   (Inr (PDict [(''message'', PStr ''Success'')]),
    \<lparr>service_name = ''svc'', port = 20001, infra_provider = (PBool False, PInt 1),
     autoscaler = Some (RequestRateAutoscaler (PInt 0, None)),
     trace = [Auto Terminate_autoscaler, Infra Terminate_infra]\<rparr>)"
  by (simp add: terminate_def comp_defs example_env_def example_controller_def)

lemma stuck_terminate:
  "terminate stuck_autoscaler_env (example_request 2)
     (example_controller (Some (RequestRateAutoscaler (PInt 0, None)))) =
   (Inl (OtherError ''cannot join thread''),
    \<lparr>service_name = ''svc'', port = 20001, infra_provider = (PBool False, PInt 1),
     autoscaler = Some (RequestRateAutoscaler (PInt 0, None)),
     trace = [Auto Terminate_autoscaler]\<rparr>)"
  by (simp add: terminate_def comp_defs stuck_autoscaler_env_def example_env_def
      example_controller_def)

section \<open>Errors during a rollout\<close>

text \<open>
  Claim C2, as amended. \<open>update_service\<close> has no rollback. A call that fails before
  \<open>set_separate_replicas\<close> is reached (no autoscaler, a body that cannot be read, a
  missing \<open>version\<close> or \<open>separate_replicas\<close> key) ends in an error and leaves the
  controller and both collaborators unchanged. Otherwise
  \<open>set_separate_replicas\<close> is applied first, with the flag of the request. If it
  raises, or if the task file of the requested version cannot be read, the error is
  surfaced and the infra provider stays as \<open>set_separate_replicas\<close> left it, nothing
  else having been called. If \<open>update_version\<close> (with the version of the request and
  the specification read) then raises, the error is surfaced and the infra provider
  stays as \<open>update_version\<close> left it. Otherwise \<open>update_spec\<close> is applied to the
  autoscaler; the response is the success message, or the exception of \<open>update_spec\<close>,
  and both collaborators stay as the three calls left them.
\<close>

theorem update_service_no_rollback:
  assumes "update_service env request self = (r, self')"
  shows "(autoscaler self = None \<or> isl (request_json request)
          \<or> (\<exists>d. request_json request = Inr d
                \<and> (isl (getitem d ''version'') \<or> isl (getitem d ''separate_replicas'')))
          \<longrightarrow> isl r \<and> self' = self)
       \<and> (\<forall>obj d version separate_replicas r1 p1.
            autoscaler self = Some obj \<longrightarrow> request_json request = Inr d \<longrightarrow>
            getitem d ''version'' = Inr version \<longrightarrow>
            getitem d ''separate_replicas'' = Inr separate_replicas \<longrightarrow>
            infra_do env (Set_separate_replicas separate_replicas) (infra_provider self) = (r1, p1)
            \<longrightarrow>
            (let after_set = self\<lparr>infra_provider := p1,
                   trace := trace self @ [Infra (Set_separate_replicas separate_replicas)]\<rparr>
             in case r1 of
                  Inl e \<Rightarrow> r = Inl e \<and> self' = after_set
                | Inr _ \<Rightarrow>
                   (case from_yaml env (generate_remote_task_yaml_file_name env
                           (service_name self) version True) of
                      Inl e \<Rightarrow> r = Inl e \<and> self' = after_set
                    | Inr service \<Rightarrow>
                       (case infra_do env (Update_version version service) p1 of
                          (r2, p2) \<Rightarrow>
                           (let after_update = after_set\<lparr>infra_provider := p2,
                                  trace := trace after_set @ [Infra (Update_version version service)]\<rparr>
                            in case r2 of
                                 Inl e \<Rightarrow> r = Inl e \<and> self' = after_update
                               | Inr _ \<Rightarrow>
                                  (case autoscaler_do env (Update_spec service) (autoscaler_state obj) of
                                     (r3, a3) \<Rightarrow>
                                       r = map_sum id (\<lambda>_. Success) r3
                                     \<and> self' = after_update\<lparr>
                                          autoscaler := Some (map_autoscaler (\<lambda>_. a3) obj),
                                          trace := trace after_update @ [Auto (Update_spec service)]\<rparr>))))))"
    (is "?early \<and> ?late")
proof -
  have early: ?early
  proof
    assume early: "autoscaler self = None \<or> isl (request_json request)
          \<or> (\<exists>d. request_json request = Inr d
                \<and> (isl (getitem d ''version'') \<or> isl (getitem d ''separate_replicas'')))"
    have "\<exists>e. update_service env request self = (Inl e, self)"
    proof (cases "autoscaler self")
      case None
      then show ?thesis by (simp add: update_service_def comp_defs)
    next
      case (Some obj)
      show ?thesis
      proof (cases "request_json request")
        case (Inl e)
        with Some show ?thesis by (simp add: update_service_def comp_defs)
      next
        case body: (Inr d)
        with Some early
        have keys: "isl (getitem d ''version'') \<or> isl (getitem d ''separate_replicas'')"
          by simp
        show ?thesis
        proof (cases "getitem d ''version''")
          case (Inl e)
          with Some body show ?thesis by (simp add: update_service_def comp_defs)
        next
          case v: (Inr version)
          with keys obtain e where "getitem d ''separate_replicas'' = Inl e"
            by (cases "getitem d ''separate_replicas''") simp_all
          with Some body v show ?thesis by (simp add: update_service_def comp_defs)
        qed
      qed
    qed
    with assms show "isl r \<and> self' = self" by auto
  qed
  have late: ?late
    using assms
    by (auto simp add: update_service_def comp_defs Let_def split: sum.splits prod.splits)
  from early late show ?thesis ..
qed

theorem update_service_no_rollback_witness:
  "autoscaler (example_controller (Some (RequestRateAutoscaler (PInt 0, None)))) =
     Some (RequestRateAutoscaler (PInt 0, None))
   \<and> request_json (example_request 2) =
       Inr (PDict [(''version'', PInt 2), (''separate_replicas'', PBool True),
                   (''num_requests'', PInt 50)])
   \<and> infra_do example_env (Set_separate_replicas (PBool True))
        (infra_provider (example_controller (Some (RequestRateAutoscaler (PInt 0, None))))) =
       (Inr PNone, (PBool True, PInt 1))
   \<and> from_yaml example_env ''/home/sky/svc/task_v2.yaml'' = Inr example_spec
   \<and> update_service example_env (example_request 2)
        (example_controller (Some (RequestRateAutoscaler (PInt 0, None)))) =
       (Inr Success,
        \<lparr>service_name = ''svc'', port = 20001, infra_provider = (PBool True, PInt 2),
         autoscaler = Some (RequestRateAutoscaler (PInt 0, Some example_spec)),
         trace = [Infra (Set_separate_replicas (PBool True)),
                  Infra (Update_version (PInt 2) example_spec),
                  Auto (Update_spec example_spec)]\<rparr>)"
  using update_service_no_rollback [OF example_rollout]
  by (simp add: example_rollout)
     (simp add: example_controller_def example_request_def example_env_def
       example_from_yaml_def)

text \<open>
  The claim C2 as first stated (an error implies that all three calls were applied or
  none) fails: the request asks for version 3, whose task file does not exist.
  \<open>set_separate_replicas(True)\<close> has been applied when \<open>from_yaml\<close> raises; the
  error reaches the caller with the flag changed and neither \<open>update_version\<close> nor
  \<open>update_spec\<close> called.
\<close>

theorem update_service_partial_counterexample:
  "fst (update_service example_env (example_request 3)
          (example_controller (Some (RequestRateAutoscaler (PInt 0, None))))) =
     Inl (FileNotFoundError ''/home/sky/svc/task_v3.yaml'')
   \<and> trace (snd (update_service example_env (example_request 3)
          (example_controller (Some (RequestRateAutoscaler (PInt 0, None)))))) =
     [Infra (Set_separate_replicas (PBool True))]
   \<and> infra_provider (example_controller (Some (RequestRateAutoscaler (PInt 0, None)))) =
     (PBool False, PInt 1)
   \<and> infra_provider (snd (update_service example_env (example_request 3)
          (example_controller (Some (RequestRateAutoscaler (PInt 0, None)))))) =
     (PBool True, PInt 1)"
  by (simp add: example_rollout_missing_file) (simp add: example_controller_def)

section \<open>Order of a successful rollout\<close>

text \<open>
  Claim C3. When \<open>update_service\<close> returns normally, there was an autoscaler, the body
  held a \<open>version\<close> and a \<open>separate_replicas\<close> entry, and three calls were made, each of
  which returned: \<open>set_separate_replicas\<close> with the flag of the request on the infra
  provider as it was, then \<open>update_version\<close> with the version of the request and the
  specification read from its task file on the infra provider as the first call left it
  (state \<open>p2\<close> afterwards), then \<open>update_spec\<close> with that specification on the
  autoscaler. The call of \<open>update_spec\<close> starts from the controller whose infra provider
  is already \<open>p2\<close> and whose autoscaler is still the old one, and it ends in the final
  controller, whose infra provider is \<open>p2\<close>: from the moment the autoscaler holds the new
  specification, what it reads from the infra provider is the rollout already
  recorded. The final controller is exactly the initial one with these three effects
  and these three calls recorded in this order; the response is the success
  message.
\<close>

theorem update_service_order:
  assumes "update_service env request self = (Inr r, self')"
  shows "\<exists>obj d version separate_replicas service x1 p1 x2 p2 x3 a3.
           autoscaler self = Some obj
         \<and> request_json request = Inr d
         \<and> getitem d ''version'' = Inr version
         \<and> getitem d ''separate_replicas'' = Inr separate_replicas
         \<and> infra_do env (Set_separate_replicas separate_replicas) (infra_provider self)
             = (Inr x1, p1)
         \<and> from_yaml env (generate_remote_task_yaml_file_name env (service_name self) version True)
             = Inr service
         \<and> infra_do env (Update_version version service) p1 = (Inr x2, p2)
         \<and> autoscaler_do env (Update_spec service) (autoscaler_state obj) = (Inr x3, a3)
         \<and> call_autoscaler env (Update_spec service)
              (self\<lparr>infra_provider := p2,
                    trace := trace self @ [Infra (Set_separate_replicas separate_replicas),
                                           Infra (Update_version version service)]\<rparr>)
             = (Inr x3, self')
         \<and> self' = self\<lparr>infra_provider := p2,
                          autoscaler := Some (map_autoscaler (\<lambda>_. a3) obj),
                          trace := trace self @ [Infra (Set_separate_replicas separate_replicas),
                                                 Infra (Update_version version service),
                                                 Auto (Update_spec service)]\<rparr>
         \<and> infra_provider self' = p2
         \<and> r = Success"
proof -
  from assms obtain obj where obj: "autoscaler self = Some obj"
    by (cases "autoscaler self") (auto simp add: update_service_def comp_defs)
  from assms obj obtain d where d: "request_json request = Inr d"
    by (cases "request_json request") (auto simp add: update_service_def comp_defs)
  from assms obj d obtain version where v: "getitem d ''version'' = Inr version"
    by (cases "getitem d ''version''") (auto simp add: update_service_def comp_defs)
  from assms obj d v obtain separate_replicas where
    s: "getitem d ''separate_replicas'' = Inr separate_replicas"
    by (cases "getitem d ''separate_replicas''") (auto simp add: update_service_def comp_defs)
  obtain r1 p1 where c1:
    "infra_do env (Set_separate_replicas separate_replicas) (infra_provider self) = (r1, p1)"
    by (cases "infra_do env (Set_separate_replicas separate_replicas) (infra_provider self)")
  from assms obj d v s c1 obtain x1 where x1: "r1 = Inr x1"
    by (cases r1) (auto simp add: update_service_def comp_defs)
  let ?path = "generate_remote_task_yaml_file_name env (service_name self) version True"
  from assms obj d v s c1 x1 obtain service where y: "from_yaml env ?path = Inr service"
    by (cases "from_yaml env ?path") (auto simp add: update_service_def comp_defs)
  obtain r2 p2 where c2: "infra_do env (Update_version version service) p1 = (r2, p2)"
    by (cases "infra_do env (Update_version version service) p1")
  from assms obj d v s c1 x1 y c2 obtain x2 where x2: "r2 = Inr x2"
    by (cases r2) (auto simp add: update_service_def comp_defs)
  obtain r3 a3 where c3:
    "autoscaler_do env (Update_spec service) (autoscaler_state obj) = (r3, a3)"
    by (cases "autoscaler_do env (Update_spec service) (autoscaler_state obj)")
  from assms obj d v s c1 x1 y c2 x2 c3 obtain x3 where x3: "r3 = Inr x3"
    by (cases r3) (auto simp add: update_service_def comp_defs)
  from assms obj d v s c1 x1 y c2 x2 c3 x3
  have fin: "self' = self\<lparr>infra_provider := p2,
                          autoscaler := Some (map_autoscaler (\<lambda>_. a3) obj),
                          trace := trace self @ [Infra (Set_separate_replicas separate_replicas),
                                                 Infra (Update_version version service),
                                                 Auto (Update_spec service)]\<rparr>"
    and r: "r = Success"
    by (auto simp add: update_service_def comp_defs)
  from obj c3 x3 fin
  have swap: "call_autoscaler env (Update_spec service)
              (self\<lparr>infra_provider := p2,
                    trace := trace self @ [Infra (Set_separate_replicas separate_replicas),
                                           Infra (Update_version version service)]\<rparr>)
             = (Inr x3, self')"
    by (simp add: call_autoscaler_def)
  from fin have seen: "infra_provider self' = p2" by simp
  from obj d v s c1 x1 y c2 x2 c3 x3 swap fin seen r show ?thesis by blast
qed

theorem update_service_order_witness:
  "update_service example_env (example_request 2)
        (example_controller (Some (RequestRateAutoscaler (PInt 0, None)))) =
       (Inr Success,
        \<lparr>service_name = ''svc'', port = 20001, infra_provider = (PBool True, PInt 2),
         autoscaler = Some (RequestRateAutoscaler (PInt 0, Some example_spec)),
         trace = [Infra (Set_separate_replicas (PBool True)),
                  Infra (Update_version (PInt 2) example_spec),
                  Auto (Update_spec example_spec)]\<rparr>)
   \<and> (\<exists>x1 p1 x2 p2 x3 a3.
         infra_do example_env (Set_separate_replicas (PBool True)) (PBool False, PInt 1)
           = (Inr x1, p1)
       \<and> infra_do example_env (Update_version (PInt 2) example_spec) p1 = (Inr x2, p2)
       \<and> autoscaler_do example_env (Update_spec example_spec) (PInt 0, None) = (Inr x3, a3)
       \<and> p2 = (PBool True, PInt 2) \<and> a3 = (PInt 0, Some example_spec))"
proof -
  from update_service_order [OF example_rollout]
  obtain obj d version separate_replicas service x1 p1 x2 p2 x3 a3 where
    obj: "autoscaler (example_controller (Some (RequestRateAutoscaler (PInt 0, None)))) = Some obj"
    and d: "request_json (example_request 2) = Inr d"
    and v: "getitem d ''version'' = Inr version"
    and s: "getitem d ''separate_replicas'' = Inr separate_replicas"
    and c1: "infra_do example_env (Set_separate_replicas separate_replicas)
               (infra_provider (example_controller (Some (RequestRateAutoscaler (PInt 0, None)))))
             = (Inr x1, p1)"
    and y: "from_yaml example_env (generate_remote_task_yaml_file_name example_env
               (service_name (example_controller (Some (RequestRateAutoscaler (PInt 0, None)))))
               version True) = Inr service"
    and c2: "infra_do example_env (Update_version version service) p1 = (Inr x2, p2)"
    and c3: "autoscaler_do example_env (Update_spec service) (autoscaler_state obj) = (Inr x3, a3)"
    by blast
  from obj have obj': "obj = RequestRateAutoscaler (PInt 0, None)"
    by (simp add: example_controller_def)
  from d have d': "d = PDict [(''version'', PInt 2), (''separate_replicas'', PBool True),
                   (''num_requests'', PInt 50)]"
    by (simp add: example_request_def)
  from v d' have v': "version = PInt 2" by simp
  from s d' have s': "separate_replicas = PBool True" by simp
  from y v' have y': "service = example_spec"
    by (simp add: example_env_def example_controller_def example_file_name_def
        example_from_yaml_def)
  from c1 s' have p1: "p1 = (PBool True, PInt 1)"
    by (auto simp add: example_env_def example_controller_def)
  from c2 v' y' p1 have p2: "p2 = (PBool True, PInt 2)"
    by (auto simp add: example_env_def)
  from c3 obj' y' have a3: "a3 = (PInt 0, Some example_spec)"
    by (auto simp add: example_env_def)
  from c1 c2 c3 s' v' y' obj' p2 a3
  have "\<exists>x1 p1 x2 p2 x3 a3.
         infra_do example_env (Set_separate_replicas (PBool True)) (PBool False, PInt 1)
           = (Inr x1, p1)
       \<and> infra_do example_env (Update_version (PInt 2) example_spec) p1 = (Inr x2, p2)
       \<and> autoscaler_do example_env (Update_spec example_spec) (PInt 0, None) = (Inr x3, a3)
       \<and> p2 = (PBool True, PInt 2) \<and> a3 = (PInt 0, Some example_spec)"
    by (auto simp add: example_controller_def)
  with example_rollout show ?thesis by simp
qed

section \<open>Load reports\<close>

text \<open>
  Claim C4, as amended. For a load report whose body holds the request count \<open>n\<close>: when
  the autoscaler is a \<open>RequestRateAutoscaler\<close>, exactly one call is made,
  \<open>set_num_requests(n)\<close> on the autoscaler, the infra provider is untouched, and the
  response is the success message if that call returns (its exception otherwise). When
  there is no request-rate autoscaler (\<^verbatim>\<open>None\<close>, or an autoscaler of another class), the
  controller is unchanged and the response is the success message.
\<close>

theorem update_num_requests_forwards:
  assumes "request_json request = Inr request_data"
      and "getitem request_data ''num_requests'' = Inr n"
      and "update_num_requests env request self = (r, self')"
  shows "(\<forall>a. autoscaler self = Some (RequestRateAutoscaler a) \<longrightarrow>
            trace self' = trace self @ [Auto (Set_num_requests n)]
          \<and> autoscaler self' =
              Some (RequestRateAutoscaler (snd (autoscaler_do env (Set_num_requests n) a)))
          \<and> infra_provider self' = infra_provider self
          \<and> r = map_sum id (\<lambda>_. Success) (fst (autoscaler_do env (Set_num_requests n) a)))
       \<and> (\<not> isinstance_RequestRateAutoscaler (autoscaler self) \<longrightarrow>
            r = Inr Success \<and> self' = self)"
  using assms
  by (auto simp add: update_num_requests_def comp_defs split: sum.splits prod.splits)

theorem update_num_requests_forwards_witness:
  "getitem (PDict [(''version'', PInt 2), (''separate_replicas'', PBool True),
                   (''num_requests'', PInt 50)]) ''num_requests'' = Inr (PInt 50)
   \<and> fst (update_num_requests example_env (example_request 2)
        (example_controller (Some (RequestRateAutoscaler (PInt 0, None))))) = Inr Success
   \<and> trace (snd (update_num_requests example_env (example_request 2)
        (example_controller (Some (RequestRateAutoscaler (PInt 0, None)))))) =
       [Auto (Set_num_requests (PInt 50))]
   \<and> autoscaler (snd (update_num_requests example_env (example_request 2)
        (example_controller (Some (RequestRateAutoscaler (PInt 0, None)))))) =
       Some (RequestRateAutoscaler (PInt 50, None))"
proof -
  have body: "request_json (example_request 2) =
      Inr (PDict [(''version'', PInt 2), (''separate_replicas'', PBool True),
                  (''num_requests'', PInt 50)])"
    by (simp add: example_request_def)
  have key: "getitem (PDict [(''version'', PInt 2), (''separate_replicas'', PBool True),
                   (''num_requests'', PInt 50)]) ''num_requests'' = Inr (PInt 50)"
    by simp
  from update_num_requests_forwards [OF body key example_load_report] key show ?thesis
    unfolding example_load_report by (simp add: example_controller_def example_env_def)
qed

text \<open>
  The claim C4 as first stated (the count is forwarded whenever an autoscaler is
  present) fails for an autoscaler that is not a \<open>RequestRateAutoscaler\<close>: it is present,
  the report is acknowledged, and no call is made on it.
\<close>

theorem update_num_requests_other_autoscaler_counterexample:
  "autoscaler (example_controller (Some (Autoscaler (PInt 0, None)))) \<noteq> None
   \<and> update_num_requests example_env (example_request 2)
       (example_controller (Some (Autoscaler (PInt 0, None)))) =
     (Inr Success, example_controller (Some (Autoscaler (PInt 0, None))))
   \<and> Auto (Set_num_requests (PInt 50)) \<notin> set (trace (snd
       (update_num_requests example_env (example_request 2)
          (example_controller (Some (Autoscaler (PInt 0, None)))))))"
  by (simp add: update_num_requests_def comp_defs example_env_def example_controller_def
      example_request_def)

section \<open>Terminating the service\<close>

text \<open>
  Claim C5, as amended. In every call of \<open>terminate\<close>: when there is an autoscaler, its
  \<open>terminate\<close> is called first and the autoscaler stays as that call left it. If that
  call raises, its exception is surfaced and the infra provider's \<open>terminate\<close> is
  not called. If it returns, or if there is no autoscaler, the infra provider's
  \<open>terminate\<close> is called next, on the infra provider as it was, and the response is
  \<^verbatim>\<open>{'message': msg}\<close> with the message it returns, or its exception if it raises.
  Nothing else is called.
\<close>

theorem terminate_outcome:
  assumes "terminate env request self = (r, self')"
  shows "(autoscaler self = None \<longrightarrow>
            (\<forall>rm p'. infra_do env Terminate_infra (infra_provider self) = (rm, p') \<longrightarrow>
               r = map_sum id (\<lambda>msg. PDict [(''message'', msg)]) rm
             \<and> self' = self\<lparr>infra_provider := p',
                              trace := trace self @ [Infra Terminate_infra]\<rparr>))
       \<and> (\<forall>obj ra a'. autoscaler self = Some obj \<longrightarrow>
            autoscaler_do env Terminate_autoscaler (autoscaler_state obj) = (ra, a') \<longrightarrow>
            (case ra of
               Inl e \<Rightarrow>
                 r = Inl e
               \<and> self' = self\<lparr>autoscaler := Some (map_autoscaler (\<lambda>_. a') obj),
                                trace := trace self @ [Auto Terminate_autoscaler]\<rparr>
             | Inr _ \<Rightarrow>
                 (\<forall>rm p'. infra_do env Terminate_infra (infra_provider self) = (rm, p') \<longrightarrow>
                    r = map_sum id (\<lambda>msg. PDict [(''message'', msg)]) rm
                  \<and> self' = self\<lparr>infra_provider := p',
                                   autoscaler := Some (map_autoscaler (\<lambda>_. a') obj),
                                   trace := trace self @ [Auto Terminate_autoscaler,
                                                          Infra Terminate_infra]\<rparr>)))"
  using assms
  by (auto simp add: terminate_def comp_defs split: sum.splits prod.splits)

theorem terminate_outcome_witness:
  "autoscaler_do example_env Terminate_autoscaler (PInt 0, None) = (Inr PNone, (PInt 0, None))
   \<and> infra_do example_env Terminate_infra (PBool False, PInt 1) =
       (Inr (PStr ''Success''), (PBool False, PInt 1))
   \<and> terminate example_env (example_request 2)
       (example_controller (Some (RequestRateAutoscaler (PInt 0, None)))) =
     (Inr (PDict [(''message'', PStr ''Success'')]),
      \<lparr>service_name = ''svc'', port = 20001, infra_provider = (PBool False, PInt 1),
       autoscaler = Some (RequestRateAutoscaler (PInt 0, None)),
       trace = [Auto Terminate_autoscaler, Infra Terminate_infra]\<rparr>)"
  using terminate_outcome [OF example_terminate]
  by (simp add: example_terminate) (simp add: example_env_def)

text \<open>
  The claim C5 as first stated (in every call the drain is invoked after the
  autoscaler is stopped) fails when stopping the autoscaler raises: the autoscaler's
  \<open>terminate\<close> is the only call made, the exception reaches the caller, and the infra
  provider's \<open>terminate\<close> is never invoked.
\<close>

theorem terminate_skips_drain_counterexample:
  "autoscaler (example_controller (Some (RequestRateAutoscaler (PInt 0, None)))) \<noteq> None
   \<and> fst (terminate stuck_autoscaler_env (example_request 2)
        (example_controller (Some (RequestRateAutoscaler (PInt 0, None))))) =
       Inl (OtherError ''cannot join thread'')
   \<and> trace (snd (terminate stuck_autoscaler_env (example_request 2)
        (example_controller (Some (RequestRateAutoscaler (PInt 0, None)))))) =
       [Auto Terminate_autoscaler]
   \<and> Infra Terminate_infra \<notin> set (trace (snd (terminate stuck_autoscaler_env
        (example_request 2)
        (example_controller (Some (RequestRateAutoscaler (PInt 0, None)))))))"
  by (simp add: stuck_terminate) (simp add: example_controller_def)

text \<open>
  Claim C10. The outcome of \<open>terminate\<close> (the response or exception, the states of both
  collaborators and the calls made) does not depend on the request.
\<close>

theorem terminate_ignores_request:
  "terminate env request self = terminate env request' self"
  by (simp add: terminate_def)

section \<open>Terminating twice\<close>

lemma terminateAll_twice:
  "terminateAll m (snd (terminateAll m fs)) = (Inr m, snd (terminateAll m fs))"
  by (simp add: terminateAll_def filter_map o_def)

lemma terminate_spec_result:
  assumes "infra_do env Terminate_infra = terminateAll m"
      and "autoscaler_do env Terminate_autoscaler = stop_loop"
  shows "terminate env request self =
           (Inr (PDict [(''message'', m)]),
            self\<lparr>infra_provider := snd (terminateAll m (infra_provider self)),
                 autoscaler := map_option (map_autoscaler (\<lambda>a. snd (stop_loop a))) (autoscaler self),
                 trace := trace self
                    @ (if autoscaler self = None then [] else [Auto Terminate_autoscaler])
                    @ [Infra Terminate_infra]\<rparr>)"
  using assms
  apply (cases "autoscaler self")
   apply (simp add: terminate_def comp_defs terminateAll_def stop_loop_def)
  subgoal for a
    by (cases a) (simp_all add: terminate_def comp_defs terminateAll_def stop_loop_def)
  done

text \<open>
  Claim C6, for collaborators whose terminate operations are the ones the specification
  describes (\<open>terminateAll\<close> and \<open>stop_loop\<close>). A second call of \<open>terminate\<close>, from the
  state the first one reached, returns the same success message as the first and
  changes the state of neither collaborator; in particular it issues no deprovision
  request. The first call issues one deprovision request for each replica that was not
  terminated. The controller itself keeps no record of having terminated: it calls both
  collaborators again.
\<close>

theorem terminate_idempotent:
  assumes "infra_do env Terminate_infra = terminateAll m"
      and "autoscaler_do env Terminate_autoscaler = stop_loop"
      and "terminate env request self = (r1, self1)"
      and "terminate env request' self1 = (r2, self2)"
  shows "r1 = Inr (PDict [(''message'', m)]) \<and> r2 = r1
       \<and> infra_provider self2 = infra_provider self1
       \<and> autoscaler self2 = autoscaler self1
       \<and> deprovisioned (infra_provider self2) = deprovisioned (infra_provider self1)
       \<and> deprovisioned (infra_provider self1) = deprovisioned (infra_provider self)
            @ map identity (filter (\<lambda>r. status r \<noteq> Terminated) (replicas (infra_provider self)))"
proof -
  note t1 = terminate_spec_result [OF assms(1,2), of request self]
  note t2 = terminate_spec_result [OF assms(1,2), of request' self1]
  from t1 assms(3) have s1: "infra_provider self1 = snd (terminateAll m (infra_provider self))"
    and a1: "autoscaler self1 =
               map_option (map_autoscaler (\<lambda>a. snd (stop_loop a))) (autoscaler self)"
    and r1: "r1 = Inr (PDict [(''message'', m)])"
    by auto
  from t2 assms(4) have s2: "infra_provider self2 = snd (terminateAll m (infra_provider self1))"
    and a2: "autoscaler self2 =
               map_option (map_autoscaler (\<lambda>a. snd (stop_loop a))) (autoscaler self1)"
    and r2: "r2 = Inr (PDict [(''message'', m)])"
    by auto
  have i: "infra_provider self2 = infra_provider self1"
    using s1 s2 terminateAll_twice [of m "infra_provider self"] by simp
  have a: "autoscaler self2 = autoscaler self1"
    unfolding a2 a1
    by (cases "autoscaler self") (simp_all add: autoscaler.map_comp o_def stop_loop_def)
  have d: "deprovisioned (infra_provider self1) = deprovisioned (infra_provider self)
            @ map identity (filter (\<lambda>r. status r \<noteq> Terminated) (replicas (infra_provider self)))"
    unfolding s1 by (simp add: terminateAll_def)
  from r1 r2 i a d show ?thesis by simp
qed

theorem terminate_idempotent_witness:
  "fst (terminate fleet_env (example_request 2) fleet_controller) =
     Inr (PDict [(''message'', PStr ''Success'')])
   \<and> deprovisioned (infra_provider (snd (terminate fleet_env (example_request 2)
        fleet_controller))) = [0, 1, 2]
   \<and> fst (terminate fleet_env (example_request 3)
        (snd (terminate fleet_env (example_request 2) fleet_controller))) =
     Inr (PDict [(''message'', PStr ''Success'')])
   \<and> deprovisioned (infra_provider (snd (terminate fleet_env (example_request 3)
        (snd (terminate fleet_env (example_request 2) fleet_controller))))) = [0, 1, 2]"
proof -
  have drain: "infra_do fleet_env Terminate_infra = terminateAll (PStr ''Success'')"
    by (simp add: fleet_env_def)
  have stop: "autoscaler_do fleet_env Terminate_autoscaler = stop_loop"
    by (simp add: fleet_env_def)
  obtain r2 self2 where second:
    "terminate fleet_env (example_request 3)
       (snd (terminate fleet_env (example_request 2) fleet_controller)) = (r2, self2)"
    by (cases "terminate fleet_env (example_request 3)
       (snd (terminate fleet_env (example_request 2) fleet_controller))")
  have first: "terminate fleet_env (example_request 2) fleet_controller =
      (fst (terminate fleet_env (example_request 2) fleet_controller),
       snd (terminate fleet_env (example_request 2) fleet_controller))"
    by simp
  from terminate_idempotent [OF drain stop first second] second
  show ?thesis by (simp add: example_drain)
qed

section \<open>The autoscaler's query interval\<close>

text \<open>
  Claim C7, as amended. When the autoscaler is a \<open>RequestRateAutoscaler\<close>, the handler
  calls \<open>get_query_interval\<close> on it and responds \<^verbatim>\<open>{'query_interval': interval}\<close> with the
  value returned (or raises what the call raised). Otherwise it responds
  \<^verbatim>\<open>{'query_interval': None}\<close> and the controller is unchanged.
\<close>

theorem get_autoscaler_query_interval_response:
  assumes "get_autoscaler_query_interval env self = (r, self')"
  shows "(\<forall>a. autoscaler self = Some (RequestRateAutoscaler a) \<longrightarrow>
            r = map_sum id (\<lambda>interval. PDict [(''query_interval'', interval)])
                  (fst (autoscaler_do env Get_query_interval a))
          \<and> trace self' = trace self @ [Auto Get_query_interval])
       \<and> (\<not> isinstance_RequestRateAutoscaler (autoscaler self) \<longrightarrow>
            r = Inr (PDict [(''query_interval'', PNone)]) \<and> self' = self)"
  using assms
  by (auto simp add: get_autoscaler_query_interval_def comp_defs split: sum.splits prod.splits)

theorem get_autoscaler_query_interval_response_witness:
  "fst (get_autoscaler_query_interval example_env
     (example_controller (Some (RequestRateAutoscaler (PInt 0, None))))) =
     Inr (PDict [(''query_interval'', PInt 60)])
   \<and> fst (get_autoscaler_query_interval example_env (example_controller None)) =
     Inr (PDict [(''query_interval'', PNone)])"
proof -
  obtain r self' where
    off: "get_autoscaler_query_interval example_env (example_controller None) = (r, self')"
    by (cases "get_autoscaler_query_interval example_env (example_controller None)")
  from get_autoscaler_query_interval_response [OF off]
  have "r = Inr (PDict [(''query_interval'', PNone)])"
    by (simp add: example_controller_def)
  with off get_autoscaler_query_interval_response [OF example_query_interval]
  show ?thesis unfolding example_query_interval by simp
qed

text \<open>
  The claim C7 as first stated fails on the value used when request-rate autoscaling is
  off: the response holds \<^verbatim>\<open>None\<close>, not the string \<^verbatim>\<open>"disabled"\<close>.
\<close>

theorem get_autoscaler_query_interval_disabled_counterexample:
  "get_autoscaler_query_interval example_env (example_controller None) =
     (Inr (PDict [(''query_interval'', PNone)]), example_controller None)
   \<and> PDict [(''query_interval'', PNone)] \<noteq> PDict [(''query_interval'', PStr ''disabled'')]"
  by (simp add: get_autoscaler_query_interval_def comp_defs example_controller_def)

section \<open>The fleet status snapshot\<close>

text \<open>
  What \<open>get_latest_info\<close> does when the three getters return: it calls them in the
  order \<open>get_replica_info(verbose=True)\<close>, \<open>get_uptime\<close>, \<open>get_latest_version\<close>, and
  responds with a dictionary of exactly the keys \<open>replica_info\<close>, \<open>uptime\<close> and
  \<open>version\<close>, each holding the string that the three library functions make of the
  value returned. Whether unpickling the decoded string gives the value back is a
  property of the library functions, about which nothing is assumed here.
\<close>

lemma get_latest_info_response:
  assumes "infra_do env (Get_replica_info True) (infra_provider self) = (Inr replica_info, p1)"
      and "infra_do env Get_uptime p1 = (Inr uptime, p2)"
      and "infra_do env Get_latest_version p2 = (Inr version, p3)"
  shows "get_latest_info env lib self =
           (Inr (PDict
              [(''replica_info'',
                  PStr (decode_utf8 lib (b64encode lib (pickle_dumps lib replica_info)))),
               (''uptime'', PStr (decode_utf8 lib (b64encode lib (pickle_dumps lib uptime)))),
               (''version'', PStr (decode_utf8 lib (b64encode lib (pickle_dumps lib version))))]),
            self\<lparr>infra_provider := p3,
                 trace := trace self @ [Infra (Get_replica_info True), Infra Get_uptime,
                                        Infra Get_latest_version]\<rparr>)"
  using assms by (simp add: get_latest_info_def encode_value_def comp_defs)

section \<open>Where the constructor arguments come from\<close>

text \<open>
  Claim C9, as amended. At every startup whose task file can be read, the autoscaler is
  built with \<open>auto_restart\<close>, the replica bounds and the two thresholds of the service
  specification read from that file, and with frequency 20, cooldown 60 and query
  interval 60, the constants written in the program. The infra provider is built from
  exactly the service name, the controller port and the version of the command line and
  that specification: the startup code passes it no probing cadence.
\<close>

theorem main_constructor_arguments:
  assumes "from_yaml env (generate_remote_task_yaml_file_name env (args_service_name args)
             (PInt (args_version args)) True) = Inr service_spec"
  shows "main env args =
           Inr (\<lparr>arg_service_name = args_service_name args,
                 controller_port = args_controller_port args,
                 initial_version = args_version args,
                 initial_spec = service_spec\<rparr>,
                \<lparr>arg_auto_restart = auto_restart service_spec,
                 frequency = 20,
                 min_nodes = min_replicas service_spec,
                 max_nodes = max_replicas service_spec,
                 upper_threshold = qps_upper_threshold service_spec,
                 lower_threshold = qps_lower_threshold service_spec,
                 cooldown = 60,
                 query_interval = 60\<rparr>)"
  using assms by (simp add: main_def new_RequestRateAutoscaler_def)

theorem main_constructor_arguments_witness:
  "from_yaml example_env (generate_remote_task_yaml_file_name example_env
       (args_service_name example_args) (PInt (args_version example_args)) True) =
     Inr example_spec
   \<and> main example_env example_args =
       Inr (\<lparr>arg_service_name = ''svc'', controller_port = 20001, initial_version = 2,
             initial_spec = example_spec\<rparr>,
            \<lparr>arg_auto_restart = PBool True, frequency = 20, min_nodes = PInt 1,
             max_nodes = PInt 5, upper_threshold = PInt 10, lower_threshold = PInt 2,
             cooldown = 60, query_interval = 60\<rparr>)"
proof -
  have task: "from_yaml example_env (generate_remote_task_yaml_file_name example_env
       (args_service_name example_args) (PInt (args_version example_args)) True) =
     Inr example_spec"
    by (simp add: example_env_def example_args_def example_file_name_def example_from_yaml_def)
  from main_constructor_arguments [OF task] task show ?thesis
    by (simp add: example_args_def example_spec_def)
qed

text \<open>
  The claim C9 as first stated (cooldown and query interval follow the supplied
  specification) fails: two startups whose task files hold specifications that differ
  in every field pass on the differing replica bounds, and both use frequency 20,
  cooldown 60 and query interval 60.
\<close>

theorem main_cadence_hardcoded_counterexample:
  "example_spec \<noteq> other_spec
   \<and> map_sum id (\<lambda>(ip, a). (initial_spec ip, min_nodes a, max_nodes a))
        (main example_env example_args) = Inr (example_spec, PInt 1, PInt 5)
   \<and> map_sum id (\<lambda>(ip, a). (initial_spec ip, min_nodes a, max_nodes a))
        (main other_env example_args) = Inr (other_spec, PInt 3, PInt 9)
   \<and> map_sum id (\<lambda>(ip, a). (frequency a, cooldown a, query_interval a))
        (main example_env example_args) = Inr (20, 60, 60)
   \<and> map_sum id (\<lambda>(ip, a). (frequency a, cooldown a, query_interval a))
        (main other_env example_args) = Inr (20, 60, 60)"
  by (simp add: example_main other_main new_RequestRateAutoscaler_def)
     (simp add: example_spec_def other_spec_def)

end
